theory Spec2Isabelle
  imports Main
begin

section \<open>Data model of \<^verbatim>\<open>anjani/plugins/main.py\<close>: the SESSION collection and its collaborators\<close>

text \<open>
  The plugin \<^verbatim>\<open>Main\<close> keeps two documents in the MongoDB collection \<^verbatim>\<open>SESSION\<close>:
  the restart marker (\<^verbatim>\<open>{"_id": 5}\<close>) and the session snapshot
  (\<^verbatim>\<open>{"_id": sha256(BOT_TOKEN).hexdigest()}\<close>). A stored value is one of the BSON
  kinds these documents carry: an integer (Python's unbounded \<open>int\<close>), a string, binary
  data, or null (Python's \<open>None\<close>). A document is its list of fields in order, without
  the \<^verbatim>\<open>_id\<close>, which is the key of the collection. An \<^verbatim>\<open>_id\<close> is an integer or a
  string; MongoDB never identifies the two.
\<close>

datatype bson = BInt int | BStr string | BBin "nat list" | BNull

type_synonym document = "(string \<times> bson) list"

datatype doc_id = IdInt int | IdStr string

type_synonym collection = "doc_id \<rightharpoonup> document"

text \<open>A pyrogram \<^verbatim>\<open>Message\<close>, as far as the plugin reads it: \<^verbatim>\<open>.id\<close> and \<^verbatim>\<open>.chat.id\<close>.\<close>

record message =
  msg_id :: int
  msg_chat_id :: int

text \<open>The answer of \<^verbatim>\<open>client.invoke(GetState())\<close>.\<close>

record updates_state =
  date :: int
  pts :: int
  qts :: int
  seq :: int

text \<open>
  Exceptions. \<^verbatim>\<open>MessageDeleteForbidden\<close> is the one the source catches; \<open>TypeError\<close>,
  \<open>ValueError\<close> and \<open>IndexError\<close> are raised by Python itself (\<^verbatim>\<open>int - str\<close>,
  \<^verbatim>\<open>int("x")\<close>, \<^verbatim>\<open>[][0]\<close>); \<open>TransportError\<close> stands for any other error raised by a
  call into the messaging client.
\<close>

datatype exn = MessageDeleteForbidden | TypeError | ValueError | IndexError | TransportError string

datatype outcome = Returned | Raised exn

text \<open>\<^verbatim>\<open>client.get_messages\<close> answers with one message or with a list of messages.\<close>

datatype fetched = OneMessage message | MessageList "message list"

text \<open>
  The calls the plugin makes to its collaborators, in the order it starts them: the
  store, the metrics sink (\<^verbatim>\<open>bot.log_stat\<close>), the messaging client, the local logger
  (\<^verbatim>\<open>bot.log.info\<close>) and the session file.
\<close>

datatype event =
    FindOne doc_id
  | DeleteOne doc_id
  | UpdateOne doc_id document
  | LogStat string int
  | GetMessages bson bson
  | SendMessage int string "int option"
  | DeleteMessage message
  | LogInfo string
  | FileExists
  | ReadBytes
  | InvokeGetState

text \<open>
  What one run of \<^verbatim>\<open>on_start\<close> or \<^verbatim>\<open>on_stop\<close> finds around it. The configuration
  (\<^verbatim>\<open>bot.config\<close>), the bot's user, the clock \<^verbatim>\<open>util.time.usec()\<close> (each run reads it
  once), the session file \<^verbatim>\<open>anjani/anjani.session\<close> (\<open>None\<close> when it does not exist)
  and the answers of the messaging client. The functions the plugin imports and this
  file does not contain are parameters: \<^verbatim>\<open>util.time.format_duration_us\<close>,
  \<^verbatim>\<open>hashlib.sha256(...).hexdigest()\<close> and Python's \<^verbatim>\<open>int(str)\<close> (\<open>None\<close> when it
  raises \<open>ValueError\<close>).
\<close>

record env =
  LOG_CHANNEL :: "string option"
  BOT_TOKEN :: string
  user_first_name :: string
  user_last_name :: "string option"
  usec :: int
  format_duration_us :: "int \<Rightarrow> string"
  sha256_hexdigest :: "string \<Rightarrow> string"
  py_int :: "string \<Rightarrow> int option"
  session_file :: "nat list option"
  get_state :: "exn + updates_state"
  get_messages :: "bson \<Rightarrow> bson \<Rightarrow> exn + fetched"
  send_message :: "int \<Rightarrow> string \<Rightarrow> int option \<Rightarrow> exn + message option"
  delete_message :: "message \<Rightarrow> exn option"

text \<open>The plugin object: its collection \<^verbatim>\<open>self.db\<close> and \<^verbatim>\<open>self.bot_name\<close>.\<close>

record plugin =
  db :: collection
  bot_name :: string

section \<open>The store\<close>

text \<open>
  \<^verbatim>\<open>find_one({"_id": k})\<close>, \<^verbatim>\<open>delete_one({"_id": k})\<close> and
  \<^verbatim>\<open>update_one({"_id": k}, {"$set": fields}, upsert=True)\<close>: \<^verbatim>\<open>$set\<close> replaces the
  value of a field the document has and appends a field it does not have; with
  \<^verbatim>\<open>upsert\<close> a missing document is created from the fields.
\<close>

definition find_one :: "doc_id \<Rightarrow> collection \<Rightarrow> document option" where
  "find_one k c = c k"

definition delete_one :: "doc_id \<Rightarrow> collection \<Rightarrow> collection" where
  "delete_one k c = c(k := None)"

fun set_field :: "string \<Rightarrow> bson \<Rightarrow> document \<Rightarrow> document" where
  "set_field k v [] = [(k, v)]"
| "set_field k v ((k', v') # d) =
     (if k' = k then (k, v) # d else (k', v') # set_field k v d)"

fun set_fields :: "document \<Rightarrow> document \<Rightarrow> document" where
  "set_fields [] d = d"
| "set_fields ((k, v) # fs) d = set_fields fs (set_field k v d)"

definition update_one :: "doc_id \<Rightarrow> document \<Rightarrow> collection \<Rightarrow> collection" where
  "update_one k flds c =
     c(k \<mapsto> set_fields flds (case c k of None \<Rightarrow> [] | Some d \<Rightarrow> d))"

text \<open>
  \<^verbatim>\<open>restart.get("field")\<close> on the document read from the store: \<open>None\<close> when the
  field is missing, and \<open>None\<close> as well when it holds null.
\<close>

definition dict_get :: "document \<Rightarrow> string \<Rightarrow> bson option" where
  "dict_get d k = (case map_of d k of Some BNull \<Rightarrow> None | r \<Rightarrow> r)"

section \<open>The plugin\<close>

definition marker_id :: doc_id where
  "marker_id = IdInt 5"

text \<open>
  \<^verbatim>\<open>send_to_log\<close> (lines 119-124): nothing is sent when \<^verbatim>\<open>LOG_CHANNEL\<close> is unset or
  empty; otherwise the text goes to the chat \<^verbatim>\<open>int(LOG_CHANNEL)\<close>. The third argument
  is the keyword \<^verbatim>\<open>reply_to_message_id\<close>, when given.
\<close>

definition send_to_log :: "env \<Rightarrow> string \<Rightarrow> int option \<Rightarrow> (exn + message option) \<times> event list" where
  "send_to_log e text reply_to =
     (case LOG_CHANNEL e of
        None \<Rightarrow> (Inr None, [])
      | Some ch \<Rightarrow>
          if ch = [] then (Inr None, [])
          else (case py_int e ch of
                  None \<Rightarrow> (Inl ValueError, [])
                | Some chat \<Rightarrow> (send_message e chat text reply_to, [SendMessage chat text reply_to])))"

text \<open>
  Lines 67-68: \<^verbatim>\<open>if isinstance(status_msg, List): status_msg = status_msg[0]\<close>.
\<close>

definition first_message :: "fetched \<Rightarrow> exn + message" where
  "first_message got =
     (case got of
        OneMessage m \<Rightarrow> Inr m
      | MessageList [] \<Rightarrow> Inl IndexError
      | MessageList (m # ms) \<Rightarrow> Inr m)"

text \<open>
  Lines 74-77: \<^verbatim>\<open>status_msg.delete()\<close> inside \<^verbatim>\<open>try ... except MessageDeleteForbidden: pass\<close>.
\<close>

definition try_delete :: "env \<Rightarrow> message \<Rightarrow> outcome" where
  "try_delete e m =
     (case delete_message e m of
        None \<Rightarrow> Returned
      | Some MessageDeleteForbidden \<Rightarrow> Returned
      | Some x \<Rightarrow> Raised x)"

text \<open>
  Lines 42-46: \<^verbatim>\<open>first_name + last_name if last_name else first_name\<close>; a missing and an
  empty last name are both false.
\<close>

definition full_name :: "env \<Rightarrow> string" where
  "full_name e =
     (case user_last_name e of
        None \<Rightarrow> user_first_name e
      | Some l \<Rightarrow> if l = [] then user_first_name e else user_first_name e @ l)"

text \<open>How a coroutine that returns nothing ends: \<^verbatim>\<open>await\<close> passes an exception on.\<close>

definition outcome_of :: "exn + 'a \<Rightarrow> outcome" where
  "outcome_of r = (case r of Inl x \<Rightarrow> Raised x | Inr v \<Rightarrow> Returned)"

text \<open>
  \<^verbatim>\<open>on_start\<close> (lines 41-79). \<^verbatim>\<open>asyncio.gather\<close> starts \<^verbatim>\<open>log_stat\<close> and then
  \<^verbatim>\<open>get_messages\<close>; the trace lists them in that order, and an exception of
  \<^verbatim>\<open>get_messages\<close> leaves \<^verbatim>\<open>gather\<close> while the metric call stays recorded. A stored
  time that is not an integer makes \<^verbatim>\<open>util.time.usec() - rs_time\<close> raise.
\<close>

definition on_start :: "env \<Rightarrow> plugin \<Rightarrow> outcome \<times> plugin \<times> event list" where
  "on_start e s =
     (let s1 = s\<lparr>bot_name := full_name e\<rparr>
      in case find_one marker_id (db s1) of
           Some restart \<Rightarrow>
             (let rs_time = dict_get restart ''time'';
                  rs_chat_id = dict_get restart ''status_chat_id'';
                  rs_message_id = dict_get restart ''status_message_id'';
                  s2 = s1\<lparr>db := delete_one marker_id (db s1)\<rparr>;
                  tr0 = [FindOne marker_id, DeleteOne marker_id]
              in case (rs_chat_id, rs_message_id, rs_time) of
                   (Some chat, Some mid, Some tm) \<Rightarrow>
                     (case tm of
                        BInt t \<Rightarrow>
                          (let duration = usec e - t;
                               duration_str = format_duration_us e duration;
                               tr1 = tr0 @ [LogStat ''downtime'' duration, GetMessages chat mid]
                           in case get_messages e chat mid of
                                Inl x \<Rightarrow> (Raised x, s2, tr1)
                              | Inr got \<Rightarrow>
                                  (case first_message got of
                                     Inl x \<Rightarrow> (Raised x, s2, tr1)
                                   | Inr status_msg \<Rightarrow>
                                       (let tr2 = tr1 @ [LogInfo (''Bot downtime '' @ duration_str)];
                                            (r, tr3) = send_to_log e
                                                         (''Bot downtime '' @ duration_str @ ''.'')
                                                         (Some (msg_id status_msg))
                                        in case r of
                                             Inl x \<Rightarrow> (Raised x, s2, tr2 @ tr3)
                                           | Inr sent \<Rightarrow>
                                               (try_delete e status_msg, s2,
                                                tr2 @ tr3 @ [DeleteMessage status_msg]))))
                      | _ \<Rightarrow> (Raised TypeError, s2, tr0))
                 | _ \<Rightarrow> (Returned, s2, tr0))
         | None \<Rightarrow>
             (let (r, tr) = send_to_log e ''Starting system...'' None
              in (outcome_of r, s1, FindOne marker_id # tr)))"

text \<open>The two \<^verbatim>\<open>$set\<close> documents of \<^verbatim>\<open>on_stop\<close> (lines 90-98 and 109-115).\<close>

definition snapshot_doc :: "nat list \<Rightarrow> updates_state \<Rightarrow> document" where
  "snapshot_doc bytes data =
     [(''session'', BBin bytes), (''date'', BInt (date data)), (''pts'', BInt (pts data)),
      (''qts'', BInt (qts data)), (''seq'', BInt (seq data))]"

definition marker_doc :: "message \<Rightarrow> int \<Rightarrow> document" where
  "marker_doc status_msg now =
     [(''status_chat_id'', BInt (msg_chat_id status_msg)),
      (''status_message_id'', BInt (msg_id status_msg)),
      (''time'', BInt now)]"

definition session_id :: "env \<Rightarrow> doc_id" where
  "session_id e = IdStr (sha256_hexdigest e (BOT_TOKEN e))"

text \<open>
  \<^verbatim>\<open>on_stop\<close> (lines 81-117). The filter of the first \<^verbatim>\<open>update_one\<close> is built before its
  update document, so the file is read after the digest is taken. An exception leaves
  the \<^verbatim>\<open>async with\<close> block and the function; nothing in \<^verbatim>\<open>on_stop\<close> catches one.
\<close>

definition on_stop :: "env \<Rightarrow> plugin \<Rightarrow> outcome \<times> plugin \<times> event list" where
  "on_stop e s =
     (case session_file e of
        None \<Rightarrow> (Returned, s, [FileExists])
      | Some bytes \<Rightarrow>
          (case get_state e of
             Inl x \<Rightarrow> (Raised x, s, [FileExists, InvokeGetState])
           | Inr data \<Rightarrow>
               (let snapshot = snapshot_doc bytes data;
                    s1 = s\<lparr>db := update_one (session_id e) snapshot (db s)\<rparr>;
                    tr1 = [FileExists, InvokeGetState, ReadBytes, UpdateOne (session_id e) snapshot];
                    (r, tr2) = send_to_log e ''Shutdowning system...'' None
                in case r of
                     Inl x \<Rightarrow> (Raised x, s1, tr1 @ tr2)
                   | Inr None \<Rightarrow> (Returned, s1, tr1 @ tr2 @ [LogInfo ''Preparing to shutdown...''])
                   | Inr (Some status_msg) \<Rightarrow>
                       (let marker = marker_doc status_msg (usec e)
                        in (Returned, s1\<lparr>db := update_one marker_id marker (db s1)\<rparr>,
                            tr1 @ tr2 @ [LogInfo ''Preparing to shutdown...'',
                                         UpdateOne marker_id marker])))))"

section \<open>Reading a trace\<close>

text \<open>
  The effect of the store calls of a trace on the collection, and the tests on events
  that the properties below are stated with.
\<close>

fun apply_event :: "event \<Rightarrow> collection \<Rightarrow> collection" where
  "apply_event (UpdateOne k flds) c = update_one k flds c"
| "apply_event (DeleteOne k) c = delete_one k c"
| "apply_event ev c = c"

fun replay :: "event list \<Rightarrow> collection \<Rightarrow> collection" where
  "replay [] c = c"
| "replay (ev # evs) c = replay evs (apply_event ev c)"

fun is_send :: "event \<Rightarrow> bool" where
  "is_send (SendMessage chat text reply_to) = True"
| "is_send ev = False"

fun is_store_write :: "event \<Rightarrow> bool" where
  "is_store_write (UpdateOne k flds) = True"
| "is_store_write (DeleteOne k) = True"
| "is_store_write ev = False"

fun is_metric :: "event \<Rightarrow> bool" where
  "is_metric (LogStat name v) = True"
| "is_metric ev = False"

fun writes_doc :: "doc_id \<Rightarrow> event \<Rightarrow> bool" where
  "writes_doc k (UpdateOne k' flds) = (k' = k)"
| "writes_doc k ev = False"


section \<open>Concrete runs\<close>

text \<open>
  The surroundings of the scenarios: the log channel \<^verbatim>\<open>"-1001234"\<close>, a clock reading
  of 1500000 microseconds, a session file of three bytes, and a messaging client that
  answers every call. \<open>demo_format\<close> and \<open>demo_int\<close> stand in for
  \<^verbatim>\<open>format_duration_us\<close> and \<^verbatim>\<open>int\<close> on the values the scenarios use, and
  \<open>demo_sha256\<close> gives the digest of the one token used.
\<close>

definition demo_format :: "int \<Rightarrow> string" where
  "demo_format d =
     (if d = 500000 then ''500 ms'' else if d = - 500000 then ''-500000 us'' else ''?'')"

definition demo_int :: "string \<Rightarrow> int option" where
  "demo_int str = (if str = ''-1001234'' then Some (- 1001234) else None)"

definition demo_sha256 :: "string \<Rightarrow> string" where
  "demo_sha256 tok =
     (if tok = ''123456:ABC-DEF''
      then ''21d03f238667b46b52320e59dd8c4e67a637c4561ca23bbad34689075f0eeb64''
      else [])"

definition demo_fetch :: "bson \<Rightarrow> bson \<Rightarrow> exn + fetched" where
  "demo_fetch chat mid =
     (case (chat, mid) of
        (BInt c, BInt m) \<Rightarrow> Inr (OneMessage \<lparr>msg_id = m, msg_chat_id = c\<rparr>)
      | _ \<Rightarrow> Inl (TransportError ''PEER_ID_INVALID''))"

definition demo_env :: env where
  "demo_env =
     \<lparr>LOG_CHANNEL = Some ''-1001234'',
      BOT_TOKEN = ''123456:ABC-DEF'',
      user_first_name = ''Anjani'',
      user_last_name = None,
      usec = 1500000,
      format_duration_us = demo_format,
      sha256_hexdigest = demo_sha256,
      py_int = demo_int,
      session_file = Some [1, 2, 3],
      get_state = Inr \<lparr>date = 1700000000, pts = 7, qts = 0, seq = 3\<rparr>,
      get_messages = demo_fetch,
      send_message = (\<lambda>chat text reply_to. Inr (Some \<lparr>msg_id = 42, msg_chat_id = chat\<rparr>)),
      delete_message = (\<lambda>m. None)\<rparr>"

text \<open>A plugin whose collection holds the given marker document, or none, and nothing else.\<close>

definition plugin_with :: "document option \<Rightarrow> plugin" where
  "plugin_with marker = \<lparr>db = Map.empty(marker_id := marker), bot_name = []\<rparr>"

text \<open>The marker of scenario A, and one without its chat id (scenario C).\<close>

definition marker_a :: document where
  "marker_a = [(''status_chat_id'', BInt 100), (''status_message_id'', BInt 42),
               (''time'', BInt 1000000)]"

definition marker_c :: document where
  "marker_c = [(''status_message_id'', BInt 42), (''time'', BInt 1000000)]"

text \<open>A complete marker written after the clock reading of the scenarios.\<close>

definition marker_late :: document where
  "marker_late = [(''status_chat_id'', BInt 100), (''status_message_id'', BInt 42),
                  (''time'', BInt 2000000)]"

text \<open>The same surroundings with a client that refuses to delete messages.\<close>

definition forbidding_env :: env where
  "forbidding_env = demo_env\<lparr>delete_message := (\<lambda>m. Some MessageDeleteForbidden)\<rparr>"

text \<open>
  The same surroundings with a client whose \<^verbatim>\<open>send_message\<close> raises, and with one whose
  \<^verbatim>\<open>send_message\<close> returns no message.
\<close>

definition failing_env :: env where
  "failing_env = demo_env\<lparr>send_message := (\<lambda>chat text reply_to. Inl (TransportError ''FLOOD_WAIT''))\<rparr>"

definition unanswered_env :: env where
  "unanswered_env = demo_env\<lparr>send_message := (\<lambda>chat text reply_to. Inr None)\<rparr>"

text \<open>No log channel, and a client whose position query raises.\<close>

definition disconnected_env :: env where
  "disconnected_env =
     demo_env\<lparr>LOG_CHANNEL := None, get_state := Inl (TransportError ''CONNECTION_LOST'')\<rparr>"

section \<open>The branches of \<^verbatim>\<open>send_to_log\<close>, \<^verbatim>\<open>on_start\<close> and \<^verbatim>\<open>on_stop\<close>\<close>

lemma send_to_log_unset:
  "LOG_CHANNEL e = None \<or> LOG_CHANNEL e = Some [] \<Longrightarrow> send_to_log e text reply_to = (Inr None, [])"
  by (auto simp add: send_to_log_def)

lemma send_to_log_trace:
  "snd (send_to_log e text reply_to) = [] \<or>
   (\<exists>chat. snd (send_to_log e text reply_to) = [SendMessage chat text reply_to])"
  by (simp add: send_to_log_def split: option.splits)

lemma send_to_log_sent:
  "fst (send_to_log e text reply_to) = Inr (Some m) \<Longrightarrow>
   \<exists>chat. snd (send_to_log e text reply_to) = [SendMessage chat text reply_to]"
  by (auto simp add: send_to_log_def split: option.splits if_splits)

lemma ids_differ: "session_id e \<noteq> marker_id"
  by (simp add: session_id_def marker_id_def)

lemma on_start_absent:
  "find_one marker_id (db s) = None \<Longrightarrow>
   on_start e s =
     (outcome_of (fst (send_to_log e ''Starting system...'' None)),
      s\<lparr>bot_name := full_name e\<rparr>,
      FindOne marker_id # snd (send_to_log e ''Starting system...'' None))"
  by (simp add: on_start_def find_one_def split: prod.splits)

lemma on_start_incomplete:
  "find_one marker_id (db s) = Some d \<Longrightarrow>
   dict_get d ''status_chat_id'' = None \<or> dict_get d ''status_message_id'' = None
     \<or> dict_get d ''time'' = None \<Longrightarrow>
   on_start e s =
     (Returned, s\<lparr>bot_name := full_name e, db := delete_one marker_id (db s)\<rparr>,
      [FindOne marker_id, DeleteOne marker_id])"
  by (auto simp add: on_start_def find_one_def Let_def split: option.splits)

lemma on_start_bad_time:
  "find_one marker_id (db s) = Some d \<Longrightarrow>
   dict_get d ''status_chat_id'' = Some chat \<Longrightarrow> dict_get d ''status_message_id'' = Some mid \<Longrightarrow>
   dict_get d ''time'' = Some tm \<Longrightarrow> \<forall>t. tm \<noteq> BInt t \<Longrightarrow>
   on_start e s =
     (Raised TypeError, s\<lparr>bot_name := full_name e, db := delete_one marker_id (db s)\<rparr>,
      [FindOne marker_id, DeleteOne marker_id])"
  by (auto simp add: on_start_def find_one_def Let_def split: option.splits bson.splits)

lemma on_start_complete:
  "find_one marker_id (db s) = Some d \<Longrightarrow>
   dict_get d ''status_chat_id'' = Some chat \<Longrightarrow> dict_get d ''status_message_id'' = Some mid \<Longrightarrow>
   dict_get d ''time'' = Some (BInt t) \<Longrightarrow>
   on_start e s =
     (let s2 = s\<lparr>bot_name := full_name e, db := delete_one marker_id (db s)\<rparr>;
          tr1 = [FindOne marker_id, DeleteOne marker_id, LogStat ''downtime'' (usec e - t),
                 GetMessages chat mid]
      in case get_messages e chat mid of
           Inl x \<Rightarrow> (Raised x, s2, tr1)
         | Inr got \<Rightarrow>
             (case first_message got of
                Inl x \<Rightarrow> (Raised x, s2, tr1)
              | Inr status_msg \<Rightarrow>
                  (let text = ''Bot downtime '' @ format_duration_us e (usec e - t);
                       sent = send_to_log e (text @ ''.'') (Some (msg_id status_msg))
                   in case fst sent of
                        Inl x \<Rightarrow> (Raised x, s2, tr1 @ LogInfo text # snd sent)
                      | Inr m \<Rightarrow>
                          (try_delete e status_msg, s2,
                           tr1 @ LogInfo text # snd sent @ [DeleteMessage status_msg]))))"
  by (simp add: on_start_def find_one_def Let_def split: sum.splits prod.splits)

lemma on_start_db: "db (fst (snd (on_start e s))) = delete_one marker_id (db s)"
proof (cases "find_one marker_id (db s)")
  case None
  then show ?thesis
    by (simp add: on_start_absent) (simp add: find_one_def delete_one_def fun_eq_iff)
next
  case (Some d)
  then show ?thesis
    by (simp add: on_start_def find_one_def Let_def
          split: sum.splits prod.splits option.splits bson.splits)
qed

lemma on_stop_no_file: "session_file e = None \<Longrightarrow> on_stop e s = (Returned, s, [FileExists])"
  by (simp add: on_stop_def)

lemma on_stop_no_state:
  "session_file e = Some bytes \<Longrightarrow> get_state e = Inl x \<Longrightarrow>
   on_stop e s = (Raised x, s, [FileExists, InvokeGetState])"
  by (simp add: on_stop_def)

lemma on_stop_file:
  "session_file e = Some bytes \<Longrightarrow> get_state e = Inr data \<Longrightarrow>
   on_stop e s =
     (let s1 = s\<lparr>db := update_one (session_id e) (snapshot_doc bytes data) (db s)\<rparr>;
          tr1 = [FileExists, InvokeGetState, ReadBytes,
                 UpdateOne (session_id e) (snapshot_doc bytes data)];
          sent = send_to_log e ''Shutdowning system...'' None
      in case fst sent of
           Inl x \<Rightarrow> (Raised x, s1, tr1 @ snd sent)
         | Inr None \<Rightarrow> (Returned, s1, tr1 @ snd sent @ [LogInfo ''Preparing to shutdown...''])
         | Inr (Some m) \<Rightarrow>
             (Returned, s1\<lparr>db := update_one marker_id (marker_doc m (usec e)) (db s1)\<rparr>,
              tr1 @ snd sent @ [LogInfo ''Preparing to shutdown...'',
                                UpdateOne marker_id (marker_doc m (usec e))]))"
  by (simp add: on_stop_def Let_def split: sum.splits prod.splits option.splits)

text \<open>The collection that \<^verbatim>\<open>on_stop\<close> leaves is the one its store calls produce.\<close>

lemma on_stop_replay: "db (fst (snd (on_stop e s))) = replay (snd (snd (on_stop e s))) (db s)"
proof (cases "session_file e")
  case None
  then show ?thesis by (simp add: on_stop_no_file)
next
  case (Some bytes)
  show ?thesis
  proof (cases "get_state e")
    case (Inl x)
    with Some show ?thesis by (simp add: on_stop_no_state)
  next
    case (Inr data)
    from send_to_log_trace [of e "''Shutdowning system...''" None]
    show ?thesis
      using Some Inr
      by (auto simp add: on_stop_file Let_def split: sum.splits option.splits)
  qed
qed

lemma map_of_set_field: "map_of (set_field k v d) = (map_of d)(k \<mapsto> v)"
  by (induction d) (auto simp add: fun_eq_iff)

section \<open>Shutdown without a session file\<close>

text \<open>
  Claim C1, as the code has it. When \<^verbatim>\<open>anjani/anjani.session\<close> does not exist,
  \<^verbatim>\<open>on_stop\<close> returns at its first check (line 84): it writes no session snapshot, and
  it neither posts the status message nor writes the restart marker, whatever the log
  sink would answer. Its only step is the existence test, and the collection is the
  one it started with.
\<close>

theorem on_stop_without_session_file:
  "session_file e = None \<Longrightarrow>
   on_stop e s = (Returned, s, [FileExists]) \<and>
   replay (snd (snd (on_stop e s))) (db s) = db s"
  by (simp add: on_stop_def)

theorem on_stop_without_session_file_witness:
  "session_file (demo_env\<lparr>session_file := None\<rparr>) = None \<and>
   on_stop (demo_env\<lparr>session_file := None\<rparr>) (plugin_with None)
     = (Returned, plugin_with None, [FileExists])"
  using on_stop_without_session_file [of "demo_env\<lparr>session_file := None\<rparr>" "plugin_with None"]
  by (simp add: demo_env_def)

text \<open>
  The claim as the specification words it fails: with the file absent and a log sink
  that accepts the status message (\<^verbatim>\<open>send_to_log\<close> would return message 42), the run
  sends nothing and the collection holds no marker afterwards.
\<close>

theorem on_stop_without_session_file_counterexample:
  "session_file (demo_env\<lparr>session_file := None\<rparr>) = None \<and>
   send_to_log (demo_env\<lparr>session_file := None\<rparr>) ''Shutdowning system...'' None
     = (Inr (Some \<lparr>msg_id = 42, msg_chat_id = - 1001234\<rparr>),
        [SendMessage (- 1001234) ''Shutdowning system...'' None]) \<and>
   snd (snd (on_stop (demo_env\<lparr>session_file := None\<rparr>) (plugin_with None))) = [FileExists] \<and>
   find_one marker_id (db (fst (snd (on_stop (demo_env\<lparr>session_file := None\<rparr>) (plugin_with None)))))
     = None"
  by (simp add: on_stop_def send_to_log_def demo_env_def demo_int_def plugin_with_def find_one_def)

section \<open>Further facts about the traces\<close>

lemma on_start_marker_gone: "find_one marker_id (db (fst (snd (on_start e s)))) = None"
  by (simp add: on_start_db find_one_def delete_one_def)

lemma send_to_log_no_store_write:
  "ev \<in> set (snd (send_to_log e text reply_to)) \<Longrightarrow> \<not> is_store_write ev"
  by (auto simp add: send_to_log_def split: option.splits if_splits)

lemma on_start_present_trace:
  assumes present: "find_one marker_id (db s) = Some d"
  shows "\<exists>rest. snd (snd (on_start e s)) = FindOne marker_id # DeleteOne marker_id # rest \<and>
                (\<forall>ev \<in> set rest. \<not> is_store_write ev)"
proof (cases "dict_get d ''status_chat_id'' = None \<or> dict_get d ''status_message_id'' = None
               \<or> dict_get d ''time'' = None")
  case True
  from on_start_incomplete [OF present True] show ?thesis by simp
next
  case False
  then obtain chat mid tm where flds: "dict_get d ''status_chat_id'' = Some chat"
      "dict_get d ''status_message_id'' = Some mid" "dict_get d ''time'' = Some tm"
    by auto
  show ?thesis
  proof (cases tm)
    case (BInt t)
    from flds BInt have "dict_get d ''time'' = Some (BInt t)" by simp
    from on_start_complete [OF present flds(1) flds(2) this, of e] show ?thesis
      by (auto simp add: Let_def send_to_log_no_store_write split: sum.splits)
  next
    case (BStr x)
    with on_start_bad_time [OF present flds] show ?thesis by simp
  next
    case (BBin x)
    with on_start_bad_time [OF present flds] show ?thesis by simp
  next
    case BNull
    with on_start_bad_time [OF present flds] show ?thesis by simp
  qed
qed

lemma send_to_log_no_metric:
  "ev \<in> set (snd (send_to_log e text reply_to)) \<Longrightarrow> \<not> is_metric ev"
  by (auto simp add: send_to_log_def split: option.splits if_splits)

lemma send_to_log_text:
  "SendMessage chat text' reply_to' \<in> set (snd (send_to_log e text reply_to)) \<Longrightarrow> text' = text"
  by (auto simp add: send_to_log_def split: option.splits if_splits)

lemmas demo_simps =
  on_start_def on_stop_def find_one_def delete_one_def update_one_def plugin_with_def
  marker_a_def marker_c_def dict_get_def demo_env_def demo_fetch_def demo_format_def
  demo_int_def demo_sha256_def first_message_def try_delete_def send_to_log_def full_name_def
  outcome_of_def snapshot_doc_def marker_doc_def session_id_def marker_id_def marker_late_def
  forbidding_env_def failing_env_def unanswered_env_def Let_def

section \<open>Starting twice\<close>




section \<open>The marker is deleted first\<close>

text \<open>
  Claim C3. Whatever the marker document holds, a run of \<^verbatim>\<open>on_start\<close> that finds one
  leaves no marker in the collection, however the run ends. The three fields are
  copied into locals (lines 50-52) and the deletion is the second call of the run,
  directly after the read: every call that carries a value of the marker (the metric,
  the fetch of the status message, the reply, the deletion of the message) comes
  after it, no later call writes to the store, and the marker is already gone after
  the first two calls.
\<close>

theorem on_start_clears_marker:
  assumes present: "find_one marker_id (db s) = Some d"
    and run: "on_start e s = (r, s', tr)"
  shows "find_one marker_id (db s') = None \<and>
         (\<exists>rest. tr = FindOne marker_id # DeleteOne marker_id # rest \<and>
                 (\<forall>ev \<in> set rest. \<not> is_store_write ev)) \<and>
         find_one marker_id (replay (take 2 tr) (db s)) = None"
proof -
  have gone: "find_one marker_id (db s') = None"
    using on_start_marker_gone [of e s] run by simp
  from on_start_present_trace [OF present, of e] run
  obtain rest where shape: "tr = FindOne marker_id # DeleteOne marker_id # rest"
    and rest: "\<forall>ev \<in> set rest. \<not> is_store_write ev"
    by auto
  from shape have "find_one marker_id (replay (take 2 tr) (db s)) = None"
    by (simp add: find_one_def delete_one_def)
  with gone shape rest show ?thesis by simp
qed

theorem on_start_clears_marker_witness:
  "find_one marker_id (db (plugin_with (Some marker_c))) = Some marker_c \<and>
   on_start demo_env (plugin_with (Some marker_c))
     = (Returned, plugin_with None\<lparr>bot_name := ''Anjani''\<rparr>,
        [FindOne marker_id, DeleteOne marker_id]) \<and>
   find_one marker_id (db (plugin_with (Some []))) = Some [] \<and>
   on_start demo_env (plugin_with (Some []))
     = (Returned, plugin_with None\<lparr>bot_name := ''Anjani''\<rparr>,
        [FindOne marker_id, DeleteOne marker_id]) \<and>
   find_one marker_id (db (plugin_with (Some marker_a))) = Some marker_a \<and>
   on_start demo_env (plugin_with (Some marker_a))
     = (Returned, plugin_with None\<lparr>bot_name := ''Anjani''\<rparr>,
        [FindOne marker_id, DeleteOne marker_id, LogStat ''downtime'' 500000,
         GetMessages (BInt 100) (BInt 42), LogInfo ''Bot downtime 500 ms'',
         SendMessage (- 1001234) ''Bot downtime 500 ms.'' (Some 42),
         DeleteMessage \<lparr>msg_id = 42, msg_chat_id = 100\<rparr>]) \<and>
   find_one marker_id (db (plugin_with None\<lparr>bot_name := ''Anjani''\<rparr>)) = None"
proof -
  have present: "find_one marker_id (db (plugin_with (Some marker_c))) = Some marker_c"
    by (simp add: demo_simps)
  have run: "on_start demo_env (plugin_with (Some marker_c))
     = (Returned, plugin_with None\<lparr>bot_name := ''Anjani''\<rparr>,
        [FindOne marker_id, DeleteOne marker_id])"
    by (simp add: demo_simps)
  have present_empty: "find_one marker_id (db (plugin_with (Some []))) = Some []"
    by (simp add: demo_simps)
  have run_empty: "on_start demo_env (plugin_with (Some []))
     = (Returned, plugin_with None\<lparr>bot_name := ''Anjani''\<rparr>,
        [FindOne marker_id, DeleteOne marker_id])"
    by (simp add: demo_simps)
  have present_full: "find_one marker_id (db (plugin_with (Some marker_a))) = Some marker_a"
    by (simp add: demo_simps)
  have run_full: "on_start demo_env (plugin_with (Some marker_a))
     = (Returned, plugin_with None\<lparr>bot_name := ''Anjani''\<rparr>,
        [FindOne marker_id, DeleteOne marker_id, LogStat ''downtime'' 500000,
         GetMessages (BInt 100) (BInt 42), LogInfo ''Bot downtime 500 ms'',
         SendMessage (- 1001234) ''Bot downtime 500 ms.'' (Some 42),
         DeleteMessage \<lparr>msg_id = 42, msg_chat_id = 100\<rparr>])"
    by (simp add: demo_simps)
  from on_start_clears_marker [OF present run] on_start_clears_marker [OF present_empty run_empty]
    on_start_clears_marker [OF present_full run_full]
    present run present_empty run_empty present_full run_full
  show ?thesis
    by simp
qed

section \<open>The downtime\<close>

text \<open>
  Claim C4. With a complete marker whose time is the integer \<open>T0\<close> and a clock that
  reads \<open>T1\<close>, the duration is \<open>T1 - T0\<close> over the unbounded integers, negative
  when \<open>T1 < T0\<close>. That value is the one recorded as the metric \<^verbatim>\<open>downtime\<close> (the only
  metric of the run), and it is the argument of \<^verbatim>\<open>format_duration_us\<close>, whatever that
  function is: the logged line and every message sent carry the formatting of
  \<open>T1 - T0\<close> itself.
\<close>

theorem on_start_downtime:
  assumes present: "find_one marker_id (db s) = Some d"
    and chat: "dict_get d ''status_chat_id'' = Some chat"
    and mid: "dict_get d ''status_message_id'' = Some mid"
    and time: "dict_get d ''time'' = Some (BInt T0)"
    and clock: "usec e = T1"
    and run: "on_start e s = (r, s', tr)"
  shows "take 4 tr = [FindOne marker_id, DeleteOne marker_id, LogStat ''downtime'' (T1 - T0),
                      GetMessages chat mid] \<and>
         (\<forall>ev \<in> set tr. is_metric ev \<longrightarrow> ev = LogStat ''downtime'' (T1 - T0)) \<and>
         (\<forall>got m. get_messages e chat mid = Inr got \<and> first_message got = Inr m \<longrightarrow>
            tr ! 4 = LogInfo (''Bot downtime '' @ format_duration_us e (T1 - T0))) \<and>
         (\<forall>c text reply_to. SendMessage c text reply_to \<in> set tr \<longrightarrow>
            text = ''Bot downtime '' @ format_duration_us e (T1 - T0) @ ''.'')"
proof -
  note branch = on_start_complete [OF present chat mid time, of e]
  from branch run clock
  have a: "take 4 tr = [FindOne marker_id, DeleteOne marker_id, LogStat ''downtime'' (T1 - T0),
                      GetMessages chat mid]"
    by (auto simp add: Let_def split: sum.splits)
  from branch run clock
  have b: "\<forall>ev \<in> set tr. is_metric ev \<longrightarrow> ev = LogStat ''downtime'' (T1 - T0)"
    by (auto simp add: Let_def send_to_log_no_metric split: sum.splits)
  from branch run clock
  have c: "\<forall>got m. get_messages e chat mid = Inr got \<and> first_message got = Inr m \<longrightarrow>
            tr ! 4 = LogInfo (''Bot downtime '' @ format_duration_us e (T1 - T0))"
    by (auto simp add: Let_def split: sum.splits)
  from branch run clock
  have d: "\<forall>c text reply_to. SendMessage c text reply_to \<in> set tr \<longrightarrow>
            text = ''Bot downtime '' @ format_duration_us e (T1 - T0) @ ''.''"
    by (auto simp add: Let_def split: sum.splits dest: send_to_log_text)
  from a b c d show ?thesis by blast
qed

theorem on_start_downtime_witness:
  "find_one marker_id (db (plugin_with (Some marker_late))) = Some marker_late \<and>
   dict_get marker_late ''time'' = Some (BInt 2000000) \<and>
   usec demo_env = 1500000 \<and>
   on_start demo_env (plugin_with (Some marker_late))
     = (Returned, plugin_with None\<lparr>bot_name := ''Anjani''\<rparr>,
        [FindOne marker_id, DeleteOne marker_id, LogStat ''downtime'' (- 500000),
         GetMessages (BInt 100) (BInt 42), LogInfo ''Bot downtime -500000 us'',
         SendMessage (- 1001234) ''Bot downtime -500000 us.'' (Some 42),
         DeleteMessage \<lparr>msg_id = 42, msg_chat_id = 100\<rparr>]) \<and>
   demo_format (1500000 - 2000000) = ''-500000 us''"
proof -
  have present: "find_one marker_id (db (plugin_with (Some marker_late))) = Some marker_late"
    by (simp add: demo_simps)
  have chat: "dict_get marker_late ''status_chat_id'' = Some (BInt 100)"
    and mid: "dict_get marker_late ''status_message_id'' = Some (BInt 42)"
    and time: "dict_get marker_late ''time'' = Some (BInt 2000000)"
    by (simp_all add: marker_late_def dict_get_def)
  have clock: "usec demo_env = 1500000"
    by (simp add: demo_env_def)
  have run: "on_start demo_env (plugin_with (Some marker_late))
     = (Returned, plugin_with None\<lparr>bot_name := ''Anjani''\<rparr>,
        [FindOne marker_id, DeleteOne marker_id, LogStat ''downtime'' (- 500000),
         GetMessages (BInt 100) (BInt 42), LogInfo ''Bot downtime -500000 us'',
         SendMessage (- 1001234) ''Bot downtime -500000 us.'' (Some 42),
         DeleteMessage \<lparr>msg_id = 42, msg_chat_id = 100\<rparr>])"
    by (simp add: demo_simps marker_late_def)
  from on_start_downtime [OF present chat mid time clock run] present time clock run
  show ?thesis
    by (simp add: demo_format_def)
qed

section \<open>A marker with a missing field\<close>

text \<open>
  Claim C5. When the marker is present and its chat id, its message id or its time is
  missing (the field is absent or null), \<^verbatim>\<open>on_start\<close> reads the marker, deletes it and
  returns normally: the marker is gone from the collection, no message is sent and no
  metric is recorded.
\<close>

theorem on_start_incomplete_marker:
  assumes present: "find_one marker_id (db s) = Some d"
    and missing: "dict_get d ''status_chat_id'' = None \<or> dict_get d ''status_message_id'' = None
                  \<or> dict_get d ''time'' = None"
  shows "on_start e s =
           (Returned, s\<lparr>bot_name := full_name e, db := delete_one marker_id (db s)\<rparr>,
            [FindOne marker_id, DeleteOne marker_id]) \<and>
         find_one marker_id (db (fst (snd (on_start e s)))) = None \<and>
         (\<forall>ev \<in> set (snd (snd (on_start e s))). \<not> is_send ev \<and> \<not> is_metric ev)"
  using on_start_incomplete [OF present missing, of e]
  by (simp add: find_one_def delete_one_def)

theorem on_start_incomplete_marker_witness:
  "find_one marker_id (db (plugin_with (Some marker_c))) = Some marker_c \<and>
   dict_get marker_c ''status_chat_id'' = None \<and>
   on_start demo_env (plugin_with (Some marker_c))
     = (Returned, plugin_with None\<lparr>bot_name := ''Anjani''\<rparr>,
        [FindOne marker_id, DeleteOne marker_id]) \<and>
   find_one marker_id (db (fst (snd (on_start demo_env (plugin_with (Some marker_c)))))) = None"
proof -
  have present: "find_one marker_id (db (plugin_with (Some marker_c))) = Some marker_c"
    by (simp add: demo_simps)
  have missing: "dict_get marker_c ''status_chat_id'' = None"
    by (simp add: marker_c_def dict_get_def)
  then have "dict_get marker_c ''status_chat_id'' = None
      \<or> dict_get marker_c ''status_message_id'' = None \<or> dict_get marker_c ''time'' = None"
    by simp
  from on_start_incomplete_marker [OF present this, of demo_env] present missing
  show ?thesis
    by (simp add: demo_simps)
qed

section \<open>A complete marker\<close>

text \<open>
  Claim C6, as the code has it. With a complete marker (chat \<open>C\<close>, message \<open>M\<close>,
  integer time \<open>T0\<close>) and a clock that reads \<open>T1\<close>, \<^verbatim>\<open>on_start\<close> records the metric
  \<^verbatim>\<open>downtime\<close> with the value \<open>T1 - T0\<close> and fetches message \<open>M\<close> of chat \<open>C\<close>. When
  the fetch yields the message \<open>m\<close>, the downtime line goes through \<^verbatim>\<open>send_to_log\<close>:
  with no log channel configured nothing is sent; with the log channel \<open>L\<close> the line
  is sent to chat \<open>L\<close> (the chat of the configuration, not the chat \<open>C\<close> of the
  marker) as a reply to the id of \<open>m\<close>. When that send did not raise, the deletion of
  \<open>m\<close> is attempted next, and the run ends normally both when the deletion succeeds
  and when it is refused with \<^verbatim>\<open>MessageDeleteForbidden\<close>.
\<close>

theorem on_start_complete_marker:
  assumes present: "find_one marker_id (db s) = Some d"
    and chat: "dict_get d ''status_chat_id'' = Some (BInt C)"
    and mid: "dict_get d ''status_message_id'' = Some (BInt M)"
    and time: "dict_get d ''time'' = Some (BInt T0)"
    and clock: "usec e = T1"
  shows "take 4 (snd (snd (on_start e s)))
           = [FindOne marker_id, DeleteOne marker_id, LogStat ''downtime'' (T1 - T0),
              GetMessages (BInt C) (BInt M)] \<and>
         (\<forall>got m. get_messages e (BInt C) (BInt M) = Inr got \<and> first_message got = Inr m \<longrightarrow>
           (LOG_CHANNEL e = None \<or> LOG_CHANNEL e = Some [] \<longrightarrow>
              on_start e s =
                (try_delete e m, s\<lparr>bot_name := full_name e, db := delete_one marker_id (db s)\<rparr>,
                 [FindOne marker_id, DeleteOne marker_id, LogStat ''downtime'' (T1 - T0),
                  GetMessages (BInt C) (BInt M),
                  LogInfo (''Bot downtime '' @ format_duration_us e (T1 - T0)),
                  DeleteMessage m])) \<and>
           (\<forall>ch L sent. LOG_CHANNEL e = Some ch \<and> ch \<noteq> [] \<and> py_int e ch = Some L \<and>
              send_message e L (''Bot downtime '' @ format_duration_us e (T1 - T0) @ ''.'')
                (Some (msg_id m)) = Inr sent \<longrightarrow>
              on_start e s =
                (try_delete e m, s\<lparr>bot_name := full_name e, db := delete_one marker_id (db s)\<rparr>,
                 [FindOne marker_id, DeleteOne marker_id, LogStat ''downtime'' (T1 - T0),
                  GetMessages (BInt C) (BInt M),
                  LogInfo (''Bot downtime '' @ format_duration_us e (T1 - T0)),
                  SendMessage L (''Bot downtime '' @ format_duration_us e (T1 - T0) @ ''.'')
                    (Some (msg_id m)),
                  DeleteMessage m])) \<and>
           (delete_message e m = None \<or> delete_message e m = Some MessageDeleteForbidden \<longrightarrow>
              try_delete e m = Returned))"
proof -
  note branch = on_start_complete [OF present chat mid time, of e]
  from branch clock
  have a: "take 4 (snd (snd (on_start e s)))
           = [FindOne marker_id, DeleteOne marker_id, LogStat ''downtime'' (T1 - T0),
              GetMessages (BInt C) (BInt M)]"
    by (auto simp add: Let_def split: sum.splits)
  have rest: "(LOG_CHANNEL e = None \<or> LOG_CHANNEL e = Some [] \<longrightarrow>
              on_start e s =
                (try_delete e m, s\<lparr>bot_name := full_name e, db := delete_one marker_id (db s)\<rparr>,
                 [FindOne marker_id, DeleteOne marker_id, LogStat ''downtime'' (T1 - T0),
                  GetMessages (BInt C) (BInt M),
                  LogInfo (''Bot downtime '' @ format_duration_us e (T1 - T0)),
                  DeleteMessage m])) \<and>
           (\<forall>ch L sent. LOG_CHANNEL e = Some ch \<and> ch \<noteq> [] \<and> py_int e ch = Some L \<and>
              send_message e L (''Bot downtime '' @ format_duration_us e (T1 - T0) @ ''.'')
                (Some (msg_id m)) = Inr sent \<longrightarrow>
              on_start e s =
                (try_delete e m, s\<lparr>bot_name := full_name e, db := delete_one marker_id (db s)\<rparr>,
                 [FindOne marker_id, DeleteOne marker_id, LogStat ''downtime'' (T1 - T0),
                  GetMessages (BInt C) (BInt M),
                  LogInfo (''Bot downtime '' @ format_duration_us e (T1 - T0)),
                  SendMessage L (''Bot downtime '' @ format_duration_us e (T1 - T0) @ ''.'')
                    (Some (msg_id m)),
                  DeleteMessage m])) \<and>
           (delete_message e m = None \<or> delete_message e m = Some MessageDeleteForbidden \<longrightarrow>
              try_delete e m = Returned)"
    if fetched: "get_messages e (BInt C) (BInt M) = Inr got"
      and status_msg: "first_message got = Inr m" for got m
  proof -
    from branch clock fetched status_msg
    have b: "LOG_CHANNEL e = None \<or> LOG_CHANNEL e = Some [] \<longrightarrow>
              on_start e s =
                (try_delete e m, s\<lparr>bot_name := full_name e, db := delete_one marker_id (db s)\<rparr>,
                 [FindOne marker_id, DeleteOne marker_id, LogStat ''downtime'' (T1 - T0),
                  GetMessages (BInt C) (BInt M),
                  LogInfo (''Bot downtime '' @ format_duration_us e (T1 - T0)),
                  DeleteMessage m])"
      by (auto simp add: Let_def send_to_log_unset)
    from branch clock fetched status_msg
    have c: "\<forall>ch L sent. LOG_CHANNEL e = Some ch \<and> ch \<noteq> [] \<and> py_int e ch = Some L \<and>
              send_message e L (''Bot downtime '' @ format_duration_us e (T1 - T0) @ ''.'')
                (Some (msg_id m)) = Inr sent \<longrightarrow>
              on_start e s =
                (try_delete e m, s\<lparr>bot_name := full_name e, db := delete_one marker_id (db s)\<rparr>,
                 [FindOne marker_id, DeleteOne marker_id, LogStat ''downtime'' (T1 - T0),
                  GetMessages (BInt C) (BInt M),
                  LogInfo (''Bot downtime '' @ format_duration_us e (T1 - T0)),
                  SendMessage L (''Bot downtime '' @ format_duration_us e (T1 - T0) @ ''.'')
                    (Some (msg_id m)),
                  DeleteMessage m])"
      by (auto simp add: Let_def send_to_log_def)
    have d: "delete_message e m = None \<or> delete_message e m = Some MessageDeleteForbidden \<longrightarrow>
              try_delete e m = Returned"
      by (auto simp add: try_delete_def)
    from b c d show ?thesis by blast
  qed
  with a show ?thesis by blast
qed

text \<open>
  Scenario A (chat 100, message 42, time 1000000, clock 1500000) with a client that
  refuses the deletion: the downtime recorded is 500000 and the run returns normally.
\<close>

theorem on_start_complete_marker_witness:
  "find_one marker_id (db (plugin_with (Some marker_a))) = Some marker_a \<and>
   get_messages forbidding_env (BInt 100) (BInt 42)
     = Inr (OneMessage \<lparr>msg_id = 42, msg_chat_id = 100\<rparr>) \<and>
   delete_message forbidding_env \<lparr>msg_id = 42, msg_chat_id = 100\<rparr> = Some MessageDeleteForbidden \<and>
   on_start forbidding_env (plugin_with (Some marker_a))
     = (Returned, plugin_with (Some marker_a)
                    \<lparr>bot_name := ''Anjani'',
                     db := delete_one marker_id (db (plugin_with (Some marker_a)))\<rparr>,
        [FindOne marker_id, DeleteOne marker_id, LogStat ''downtime'' 500000,
         GetMessages (BInt 100) (BInt 42), LogInfo ''Bot downtime 500 ms'',
         SendMessage (- 1001234) ''Bot downtime 500 ms.'' (Some 42),
         DeleteMessage \<lparr>msg_id = 42, msg_chat_id = 100\<rparr>]) \<and>
   LOG_CHANNEL (demo_env\<lparr>LOG_CHANNEL := None\<rparr>) = None \<and>
   on_start (demo_env\<lparr>LOG_CHANNEL := None\<rparr>) (plugin_with (Some marker_a))
     = (Returned, plugin_with (Some marker_a)
                    \<lparr>bot_name := ''Anjani'',
                     db := delete_one marker_id (db (plugin_with (Some marker_a)))\<rparr>,
        [FindOne marker_id, DeleteOne marker_id, LogStat ''downtime'' 500000,
         GetMessages (BInt 100) (BInt 42), LogInfo ''Bot downtime 500 ms'',
         DeleteMessage \<lparr>msg_id = 42, msg_chat_id = 100\<rparr>])"
proof -
  have present: "find_one marker_id (db (plugin_with (Some marker_a))) = Some marker_a"
    by (simp add: demo_simps)
  have chat: "dict_get marker_a ''status_chat_id'' = Some (BInt 100)"
    and mid: "dict_get marker_a ''status_message_id'' = Some (BInt 42)"
    and time: "dict_get marker_a ''time'' = Some (BInt 1000000)"
    by (simp_all add: marker_a_def dict_get_def)
  have clock: "usec forbidding_env = 1500000"
    by (simp add: forbidding_env_def demo_env_def)
  have fetched: "get_messages forbidding_env (BInt 100) (BInt 42)
     = Inr (OneMessage \<lparr>msg_id = 42, msg_chat_id = 100\<rparr>)"
    by (simp add: forbidding_env_def demo_env_def demo_fetch_def)
  have status_msg: "first_message (OneMessage \<lparr>msg_id = 42, msg_chat_id = 100\<rparr>)
     = Inr \<lparr>msg_id = 42, msg_chat_id = 100\<rparr>"
    by (simp add: first_message_def)
  have forbidden: "delete_message forbidding_env \<lparr>msg_id = 42, msg_chat_id = 100\<rparr>
     = Some MessageDeleteForbidden"
    by (simp add: forbidding_env_def demo_env_def)
  have channel: "LOG_CHANNEL forbidding_env = Some ''-1001234'' \<and> ''-1001234'' \<noteq> [] \<and>
     py_int forbidding_env ''-1001234'' = Some (- 1001234) \<and>
     send_message forbidding_env (- 1001234)
       (''Bot downtime '' @ format_duration_us forbidding_env (1500000 - 1000000) @ ''.'')
       (Some (msg_id \<lparr>msg_id = 42, msg_chat_id = 100\<rparr>))
     = Inr (Some \<lparr>msg_id = 42, msg_chat_id = - 1001234\<rparr>)"
    by (simp add: forbidding_env_def demo_env_def demo_int_def)
  have fmt: "format_duration_us forbidding_env (1500000 - 1000000) = ''500 ms''"
    by (simp add: forbidding_env_def demo_env_def demo_format_def)
  have clock': "usec (demo_env\<lparr>LOG_CHANNEL := None\<rparr>) = 1500000"
    by (simp add: demo_env_def)
  have fetched': "get_messages (demo_env\<lparr>LOG_CHANNEL := None\<rparr>) (BInt 100) (BInt 42)
     = Inr (OneMessage \<lparr>msg_id = 42, msg_chat_id = 100\<rparr>)"
    by (simp add: demo_env_def demo_fetch_def)
  have deleted: "try_delete (demo_env\<lparr>LOG_CHANNEL := None\<rparr>) \<lparr>msg_id = 42, msg_chat_id = 100\<rparr>
     = Returned"
    by (simp add: try_delete_def demo_env_def)
  have fmt': "format_duration_us (demo_env\<lparr>LOG_CHANNEL := None\<rparr>) (1500000 - 1000000) = ''500 ms''"
    by (simp add: demo_env_def demo_format_def)
  have unset: "LOG_CHANNEL (demo_env\<lparr>LOG_CHANNEL := None\<rparr>) = None"
    by simp
  from on_start_complete_marker [OF present chat mid time clock', THEN conjunct2, THEN spec,
      THEN spec, THEN mp, OF conjI, OF fetched' status_msg] unset deleted fmt'
  have silent: "on_start (demo_env\<lparr>LOG_CHANNEL := None\<rparr>) (plugin_with (Some marker_a))
     = (Returned, plugin_with (Some marker_a)
                    \<lparr>bot_name := ''Anjani'',
                     db := delete_one marker_id (db (plugin_with (Some marker_a)))\<rparr>,
        [FindOne marker_id, DeleteOne marker_id, LogStat ''downtime'' 500000,
         GetMessages (BInt 100) (BInt 42), LogInfo ''Bot downtime 500 ms'',
         DeleteMessage \<lparr>msg_id = 42, msg_chat_id = 100\<rparr>])"
    by (simp add: full_name_def demo_env_def)
  from on_start_complete_marker [OF present chat mid time clock, THEN conjunct2, THEN spec,
      THEN spec, THEN mp, OF conjI, OF fetched status_msg]
    present fetched forbidden channel fmt silent
  show ?thesis
    by (simp add: full_name_def forbidding_env_def demo_env_def)
qed

text \<open>
  The claim as the specification words it fails on scenario A: with no log channel
  configured no reply is posted at all, and with the log channel \<^verbatim>\<open>-1001234\<close> the
  reply goes to that chat and not to chat 100.
\<close>

theorem on_start_complete_marker_counterexample:
  "on_start (demo_env\<lparr>LOG_CHANNEL := None\<rparr>) (plugin_with (Some marker_a))
     = (Returned, plugin_with None\<lparr>bot_name := ''Anjani''\<rparr>,
        [FindOne marker_id, DeleteOne marker_id, LogStat ''downtime'' 500000,
         GetMessages (BInt 100) (BInt 42), LogInfo ''Bot downtime 500 ms'',
         DeleteMessage \<lparr>msg_id = 42, msg_chat_id = 100\<rparr>]) \<and>
   on_start demo_env (plugin_with (Some marker_a))
     = (Returned, plugin_with None\<lparr>bot_name := ''Anjani''\<rparr>,
        [FindOne marker_id, DeleteOne marker_id, LogStat ''downtime'' 500000,
         GetMessages (BInt 100) (BInt 42), LogInfo ''Bot downtime 500 ms'',
         SendMessage (- 1001234) ''Bot downtime 500 ms.'' (Some 42),
         DeleteMessage \<lparr>msg_id = 42, msg_chat_id = 100\<rparr>])"
  by (simp add: demo_simps)

section \<open>Facts about the shutdown\<close>

lemma on_stop_unset:
  assumes unset: "LOG_CHANNEL e = None \<or> LOG_CHANNEL e = Some []"
  shows "on_stop e s =
           (case session_file e of
              None \<Rightarrow> (Returned, s, [FileExists])
            | Some bytes \<Rightarrow>
                (case get_state e of
                   Inl x \<Rightarrow> (Raised x, s, [FileExists, InvokeGetState])
                 | Inr data \<Rightarrow>
                     (Returned, s\<lparr>db := update_one (session_id e) (snapshot_doc bytes data) (db s)\<rparr>,
                      [FileExists, InvokeGetState, ReadBytes,
                       UpdateOne (session_id e) (snapshot_doc bytes data),
                       LogInfo ''Preparing to shutdown...''])))"
  by (simp add: on_stop_def send_to_log_unset [OF unset] Let_def split: option.splits sum.splits)

lemma snapshot_fields:
  "dict_get (set_fields (snapshot_doc bytes data) d) ''session'' = Some (BBin bytes) \<and>
   dict_get (set_fields (snapshot_doc bytes data) d) ''date'' = Some (BInt (date data)) \<and>
   dict_get (set_fields (snapshot_doc bytes data) d) ''pts'' = Some (BInt (pts data)) \<and>
   dict_get (set_fields (snapshot_doc bytes data) d) ''qts'' = Some (BInt (qts data)) \<and>
   dict_get (set_fields (snapshot_doc bytes data) d) ''seq'' = Some (BInt (seq data))"
  by (simp add: snapshot_doc_def dict_get_def map_of_set_field)

lemma send_to_log_no_update:
  "ev \<in> set (snd (send_to_log e text reply_to)) \<Longrightarrow> \<not> writes_doc k ev"
  by (auto simp add: send_to_log_def split: option.splits if_splits)

lemma on_stop_trace_shape:
  "(\<forall>ev \<in> set (snd (snd (on_stop e s))). \<not> writes_doc marker_id ev) \<or>
   (\<exists>bytes data chat m.
      session_file e = Some bytes \<and> get_state e = Inr data \<and>
      snd (snd (on_stop e s)) =
        [FileExists, InvokeGetState, ReadBytes,
         UpdateOne (session_id e) (snapshot_doc bytes data),
         SendMessage chat ''Shutdowning system...'' None,
         LogInfo ''Preparing to shutdown...'',
         UpdateOne marker_id (marker_doc m (usec e))])"
proof (cases "session_file e")
  case None
  then show ?thesis by (simp add: on_stop_no_file)
next
  case (Some bytes)
  show ?thesis
  proof (cases "get_state e")
    case (Inl x)
    with Some show ?thesis by (simp add: on_stop_no_state)
  next
    case (Inr data)
    note branch = on_stop_file [OF Some Inr, of s]
    show ?thesis
    proof (cases "fst (send_to_log e ''Shutdowning system...'' None)")
      case (Inl x)
      with branch ids_differ [of e]
      show ?thesis by (auto simp add: Let_def send_to_log_no_update)
    next
      case sent: (Inr res)
      show ?thesis
      proof (cases res)
        case None
        with sent branch ids_differ [of e]
        show ?thesis by (auto simp add: Let_def send_to_log_no_update)
      next
        case (Some m)
        with sent send_to_log_sent [of e "''Shutdowning system...''" None m]
        obtain chat where "snd (send_to_log e ''Shutdowning system...'' None)
            = [SendMessage chat ''Shutdowning system...'' None]"
          by auto
        with Some sent branch \<open>session_file e = Some bytes\<close> Inr show ?thesis
          by (auto simp add: Let_def)
      qed
    qed
  qed
qed

lemma on_start_keeps_others: "k \<noteq> marker_id \<Longrightarrow> db (fst (snd (on_start e s))) k = db s k"
  by (simp add: on_start_db delete_one_def)

section \<open>No log channel\<close>

text \<open>
  Claim C7, as the code has it. With \<^verbatim>\<open>LOG_CHANNEL\<close> unset (or empty), no run of
  \<^verbatim>\<open>on_stop\<close> sends to the log sink or writes the marker: the marker document is as
  it was. How the run ends is decided before the log step. It returns normally when
  the session file is absent and when the position query \<^verbatim>\<open>invoke(GetState())\<close>
  answers; when that query raises (line 87, with nothing to catch it), \<^verbatim>\<open>on_stop\<close>
  ends with its exception. \<^verbatim>\<open>on_start\<close> with no marker in the collection returns
  normally after its read of the store, without a send. The store and the session
  file are taken as answering, as everywhere in this model.
\<close>

theorem log_channel_unset:
  assumes unset: "LOG_CHANNEL e = None \<or> LOG_CHANNEL e = Some []"
  shows "db (fst (snd (on_stop e s))) marker_id = db s marker_id \<and>
         (\<forall>ev \<in> set (snd (snd (on_stop e s))). \<not> is_send ev \<and> \<not> writes_doc marker_id ev) \<and>
         (session_file e = None \<longrightarrow> on_stop e s = (Returned, s, [FileExists])) \<and>
         (\<forall>bytes data. session_file e = Some bytes \<and> get_state e = Inr data \<longrightarrow>
            on_stop e s =
              (Returned, s\<lparr>db := update_one (session_id e) (snapshot_doc bytes data) (db s)\<rparr>,
               [FileExists, InvokeGetState, ReadBytes,
                UpdateOne (session_id e) (snapshot_doc bytes data),
                LogInfo ''Preparing to shutdown...''])) \<and>
         (\<forall>bytes x. session_file e = Some bytes \<and> get_state e = Inl x \<longrightarrow>
            on_stop e s = (Raised x, s, [FileExists, InvokeGetState])) \<and>
         (find_one marker_id (db s) = None \<longrightarrow>
            on_start e s = (Returned, s\<lparr>bot_name := full_name e\<rparr>, [FindOne marker_id]))"
proof -
  note stop = on_stop_unset [OF unset, of s]
  have a: "db (fst (snd (on_stop e s))) marker_id = db s marker_id"
    using ids_differ [of e]
    by (simp add: stop update_one_def split: option.splits sum.splits)
  have b: "\<forall>ev \<in> set (snd (snd (on_stop e s))). \<not> is_send ev \<and> \<not> writes_doc marker_id ev"
    using ids_differ [of e]
    by (simp add: stop split: option.splits sum.splits)
  have c1: "session_file e = None \<longrightarrow> on_stop e s = (Returned, s, [FileExists])"
    by (simp add: stop)
  have c2: "\<forall>bytes data. session_file e = Some bytes \<and> get_state e = Inr data \<longrightarrow>
            on_stop e s =
              (Returned, s\<lparr>db := update_one (session_id e) (snapshot_doc bytes data) (db s)\<rparr>,
               [FileExists, InvokeGetState, ReadBytes,
                UpdateOne (session_id e) (snapshot_doc bytes data),
                LogInfo ''Preparing to shutdown...''])"
    by (simp add: stop)
  have c3: "\<forall>bytes x. session_file e = Some bytes \<and> get_state e = Inl x \<longrightarrow>
            on_stop e s = (Raised x, s, [FileExists, InvokeGetState])"
    by (simp add: stop)
  have d: "find_one marker_id (db s) = None \<longrightarrow>
            on_start e s = (Returned, s\<lparr>bot_name := full_name e\<rparr>, [FindOne marker_id])"
    by (simp add: on_start_absent send_to_log_unset [OF unset] outcome_of_def)
  from a b c1 c2 c3 d show ?thesis by blast
qed

text \<open>
  The three endings of \<^verbatim>\<open>on_stop\<close> and the start without a marker, all with no log
  channel configured.
\<close>

theorem log_channel_unset_witness:
  "LOG_CHANNEL (demo_env\<lparr>LOG_CHANNEL := None\<rparr>) = None \<and>
   on_stop (demo_env\<lparr>LOG_CHANNEL := None\<rparr>) (plugin_with None)
     = (Returned,
        plugin_with None
          \<lparr>db := update_one (session_id (demo_env\<lparr>LOG_CHANNEL := None\<rparr>))
                   (snapshot_doc [1, 2, 3] \<lparr>date = 1700000000, pts = 7, qts = 0, seq = 3\<rparr>)
                   (db (plugin_with None))\<rparr>,
        [FileExists, InvokeGetState, ReadBytes,
         UpdateOne (session_id (demo_env\<lparr>LOG_CHANNEL := None\<rparr>))
           (snapshot_doc [1, 2, 3] \<lparr>date = 1700000000, pts = 7, qts = 0, seq = 3\<rparr>),
         LogInfo ''Preparing to shutdown...'']) \<and>
   db (fst (snd (on_stop (demo_env\<lparr>LOG_CHANNEL := None\<rparr>) (plugin_with None)))) marker_id = None \<and>
   on_stop (demo_env\<lparr>LOG_CHANNEL := None, session_file := None\<rparr>) (plugin_with None)
     = (Returned, plugin_with None, [FileExists]) \<and>
   LOG_CHANNEL disconnected_env = None \<and>
   on_stop disconnected_env (plugin_with None)
     = (Raised (TransportError ''CONNECTION_LOST''), plugin_with None,
        [FileExists, InvokeGetState]) \<and>
   find_one marker_id (db (plugin_with None)) = None \<and>
   on_start (demo_env\<lparr>LOG_CHANNEL := None\<rparr>) (plugin_with None)
     = (Returned, plugin_with None\<lparr>bot_name := ''Anjani''\<rparr>, [FindOne marker_id])"
proof -
  let ?quiet = "demo_env\<lparr>LOG_CHANNEL := None\<rparr>"
  let ?bare = "demo_env\<lparr>LOG_CHANNEL := None, session_file := None\<rparr>"
  have unset: "LOG_CHANNEL ?quiet = None \<or> LOG_CHANNEL ?quiet = Some []"
    and unset_bare: "LOG_CHANNEL ?bare = None \<or> LOG_CHANNEL ?bare = Some []"
    and unset_lost: "LOG_CHANNEL disconnected_env = None \<or> LOG_CHANNEL disconnected_env = Some []"
    by (simp_all add: disconnected_env_def)
  have absent: "find_one marker_id (db (plugin_with None)) = None"
    by (simp add: find_one_def plugin_with_def)
  have answered: "session_file ?quiet = Some [1, 2, 3] \<and>
      get_state ?quiet = Inr \<lparr>date = 1700000000, pts = 7, qts = 0, seq = 3\<rparr>"
    by (simp add: demo_env_def)
  have no_file: "session_file ?bare = None"
    by simp
  have lost: "session_file disconnected_env = Some [1, 2, 3] \<and>
      get_state disconnected_env = Inl (TransportError ''CONNECTION_LOST'')"
    by (simp add: disconnected_env_def demo_env_def)
  note quiet = log_channel_unset [OF unset, of "plugin_with None"]
  note bare = log_channel_unset [OF unset_bare, of "plugin_with None"]
  note gone = log_channel_unset [OF unset_lost, of "plugin_with None"]
  have kept: "db (fst (snd (on_stop ?quiet (plugin_with None)))) marker_id = None"
    using quiet [THEN conjunct1] by (simp add: plugin_with_def)
  note r1 = quiet [THEN conjunct2, THEN conjunct2, THEN conjunct2, THEN conjunct1,
      THEN spec, THEN spec, THEN mp, OF answered]
  note r2 = bare [THEN conjunct2, THEN conjunct2, THEN conjunct1, THEN mp, OF no_file]
  note r3 = gone [THEN conjunct2, THEN conjunct2, THEN conjunct2, THEN conjunct2, THEN conjunct1,
      THEN spec, THEN spec, THEN mp, OF lost]
  have r4: "on_start ?quiet (plugin_with None)
     = (Returned, plugin_with None\<lparr>bot_name := ''Anjani''\<rparr>, [FindOne marker_id])"
    using quiet [THEN conjunct2, THEN conjunct2, THEN conjunct2, THEN conjunct2, THEN conjunct2,
      THEN mp, OF absent]
    by (simp add: full_name_def demo_env_def)
  from kept r1 r2 r3 r4 absent show ?thesis
    by (simp add: disconnected_env_def)
qed

text \<open>
  The claim as the specification words it fails: with no log channel configured and
  a position query that raises, \<^verbatim>\<open>on_stop\<close> does not complete but ends with the
  exception of the query.
\<close>

theorem log_channel_unset_counterexample:
  "LOG_CHANNEL disconnected_env = None \<and>
   on_stop disconnected_env (plugin_with None)
     = (Raised (TransportError ''CONNECTION_LOST''), plugin_with None,
        [FileExists, InvokeGetState])"
  by (simp add: on_stop_def disconnected_env_def demo_env_def)

section \<open>The snapshot is written before the marker\<close>

text \<open>
  Claim C8. In a run of \<^verbatim>\<open>on_stop\<close> whose call number \<open>j\<close> writes the marker, the
  session file exists, the position query answered, and an earlier call is the upsert
  of the snapshot built from them. So in every prefix of the run that contains the
  write of the marker the snapshot upsert has already happened, and the collection
  reached by that prefix holds, under the snapshot's id, a document with the session
  bytes and the four counters of this shutdown.
\<close>

theorem on_stop_snapshot_before_marker:
  assumes run: "on_stop e s = (r, s', tr)"
    and j: "j < length tr"
    and marker: "writes_doc marker_id (tr ! j)"
  shows "db s' = replay tr (db s) \<and>
         (\<exists>bytes data.
           session_file e = Some bytes \<and> get_state e = Inr data \<and>
           (\<exists>i<j. tr ! i = UpdateOne (session_id e) (snapshot_doc bytes data)) \<and>
           (\<forall>n \<le> length tr. (\<exists>ev \<in> set (take n tr). writes_doc marker_id ev) \<longrightarrow>
              UpdateOne (session_id e) (snapshot_doc bytes data) \<in> set (take n tr) \<and>
              (\<exists>doc. find_one (session_id e) (replay (take n tr) (db s)) = Some doc \<and>
                     dict_get doc ''session'' = Some (BBin bytes) \<and>
                     dict_get doc ''date'' = Some (BInt (date data)) \<and>
                     dict_get doc ''pts'' = Some (BInt (pts data)) \<and>
                     dict_get doc ''qts'' = Some (BInt (qts data)) \<and>
                     dict_get doc ''seq'' = Some (BInt (seq data)))))"
proof -
  have final: "db s' = replay tr (db s)"
    using on_stop_replay [of e s] run by simp
  from j marker have "\<exists>ev \<in> set tr. writes_doc marker_id ev"
    using nth_mem by blast
  with on_stop_trace_shape [of e s] run
  obtain bytes data chat m where has_file: "session_file e = Some bytes"
    and state: "get_state e = Inr data"
    and tr: "tr = [FileExists, InvokeGetState, ReadBytes,
                   UpdateOne (session_id e) (snapshot_doc bytes data),
                   SendMessage chat ''Shutdowning system...'' None,
                   LogInfo ''Preparing to shutdown...'',
                   UpdateOne marker_id (marker_doc m (usec e))]"
    by auto
  have quiet: "\<forall>ev \<in> set (take 6 tr). \<not> writes_doc marker_id ev"
    using ids_differ [of e] by (simp add: tr)
  have j6: "j = 6"
  proof (rule ccontr)
    assume "j \<noteq> 6"
    with j tr have "j < 6" by simp
    then have "tr ! j \<in> set (take 6 tr)"
      using j by (metis in_set_conv_nth length_take min_less_iff_conj nth_take)
    with quiet marker show False by blast
  qed
  have before: "\<exists>i<j. tr ! i = UpdateOne (session_id e) (snapshot_doc bytes data)"
    using j6 tr by (intro exI [of _ 3]) simp
  have prefixes: "\<forall>n \<le> length tr. (\<exists>ev \<in> set (take n tr). writes_doc marker_id ev) \<longrightarrow>
              UpdateOne (session_id e) (snapshot_doc bytes data) \<in> set (take n tr) \<and>
              (\<exists>doc. find_one (session_id e) (replay (take n tr) (db s)) = Some doc \<and>
                     dict_get doc ''session'' = Some (BBin bytes) \<and>
                     dict_get doc ''date'' = Some (BInt (date data)) \<and>
                     dict_get doc ''pts'' = Some (BInt (pts data)) \<and>
                     dict_get doc ''qts'' = Some (BInt (qts data)) \<and>
                     dict_get doc ''seq'' = Some (BInt (seq data)))"
  proof (intro allI impI)
    fix n
    assume n: "n \<le> length tr" and written: "\<exists>ev \<in> set (take n tr). writes_doc marker_id ev"
    have "n = 7"
    proof (rule ccontr)
      assume "n \<noteq> 7"
      with n tr have "n \<le> 6" by simp
      then have "set (take n tr) \<subseteq> set (take 6 tr)"
        by (rule set_take_subset_set_take)
      with quiet written show False by blast
    qed
    then have whole: "take n tr = tr"
      by (simp add: tr)
    have "find_one (session_id e) (replay tr (db s))
        = Some (set_fields (snapshot_doc bytes data)
                 (case db s (session_id e) of None \<Rightarrow> [] | Some d \<Rightarrow> d))"
      using ids_differ [of e] by (simp add: tr find_one_def update_one_def)
    with whole snapshot_fields show "UpdateOne (session_id e) (snapshot_doc bytes data) \<in> set (take n tr) \<and>
              (\<exists>doc. find_one (session_id e) (replay (take n tr) (db s)) = Some doc \<and>
                     dict_get doc ''session'' = Some (BBin bytes) \<and>
                     dict_get doc ''date'' = Some (BInt (date data)) \<and>
                     dict_get doc ''pts'' = Some (BInt (pts data)) \<and>
                     dict_get doc ''qts'' = Some (BInt (qts data)) \<and>
                     dict_get doc ''seq'' = Some (BInt (seq data)))"
      by (simp add: tr)
  qed
  from final has_file state before prefixes show ?thesis by blast
qed

theorem on_stop_snapshot_before_marker_witness:
  "on_stop demo_env (plugin_with None)
     = (Returned,
        plugin_with None
          \<lparr>db := update_one marker_id (marker_doc \<lparr>msg_id = 42, msg_chat_id = - 1001234\<rparr> 1500000)
                   (update_one (session_id demo_env)
                      (snapshot_doc [1, 2, 3] \<lparr>date = 1700000000, pts = 7, qts = 0, seq = 3\<rparr>)
                      (db (plugin_with None)))\<rparr>,
        [FileExists, InvokeGetState, ReadBytes,
         UpdateOne (session_id demo_env)
           (snapshot_doc [1, 2, 3] \<lparr>date = 1700000000, pts = 7, qts = 0, seq = 3\<rparr>),
         SendMessage (- 1001234) ''Shutdowning system...'' None,
         LogInfo ''Preparing to shutdown...'',
         UpdateOne marker_id (marker_doc \<lparr>msg_id = 42, msg_chat_id = - 1001234\<rparr> 1500000)]) \<and>
   writes_doc marker_id
     (UpdateOne marker_id (marker_doc \<lparr>msg_id = 42, msg_chat_id = - 1001234\<rparr> 1500000)) \<and>
   (\<exists>bytes data. session_file demo_env = Some bytes \<and> get_state demo_env = Inr data \<and>
      (\<exists>i<6. [FileExists, InvokeGetState, ReadBytes,
               UpdateOne (session_id demo_env)
                 (snapshot_doc [1, 2, 3] \<lparr>date = 1700000000, pts = 7, qts = 0, seq = 3\<rparr>),
               SendMessage (- 1001234) ''Shutdowning system...'' None,
               LogInfo ''Preparing to shutdown...'',
               UpdateOne marker_id (marker_doc \<lparr>msg_id = 42, msg_chat_id = - 1001234\<rparr> 1500000)] ! i
             = UpdateOne (session_id demo_env) (snapshot_doc bytes data))) \<and>
   find_one (IdStr ''21d03f238667b46b52320e59dd8c4e67a637c4561ca23bbad34689075f0eeb64'')
     (replay
        [FileExists, InvokeGetState, ReadBytes,
         UpdateOne (session_id demo_env)
           (snapshot_doc [1, 2, 3] \<lparr>date = 1700000000, pts = 7, qts = 0, seq = 3\<rparr>),
         SendMessage (- 1001234) ''Shutdowning system...'' None,
         LogInfo ''Preparing to shutdown...'',
         UpdateOne marker_id (marker_doc \<lparr>msg_id = 42, msg_chat_id = - 1001234\<rparr> 1500000)]
        (db (plugin_with None)))
     = Some [(''session'', BBin [1, 2, 3]), (''date'', BInt 1700000000), (''pts'', BInt 7),
             (''qts'', BInt 0), (''seq'', BInt 3)]"
proof -
  let ?tr = "[FileExists, InvokeGetState, ReadBytes,
         UpdateOne (session_id demo_env)
           (snapshot_doc [1, 2, 3] \<lparr>date = 1700000000, pts = 7, qts = 0, seq = 3\<rparr>),
         SendMessage (- 1001234) ''Shutdowning system...'' None,
         LogInfo ''Preparing to shutdown...'',
         UpdateOne marker_id (marker_doc \<lparr>msg_id = 42, msg_chat_id = - 1001234\<rparr> 1500000)]"
  have run: "on_stop demo_env (plugin_with None)
     = (Returned,
        plugin_with None
          \<lparr>db := update_one marker_id (marker_doc \<lparr>msg_id = 42, msg_chat_id = - 1001234\<rparr> 1500000)
                   (update_one (session_id demo_env)
                      (snapshot_doc [1, 2, 3] \<lparr>date = 1700000000, pts = 7, qts = 0, seq = 3\<rparr>)
                      (db (plugin_with None)))\<rparr>,
        ?tr)"
    by (simp add: on_stop_def send_to_log_def demo_env_def demo_int_def session_id_def Let_def)
  have j: "6 < length ?tr"
    by simp
  have marker: "writes_doc marker_id (?tr ! 6)"
    by simp
  have stored: "find_one (IdStr ''21d03f238667b46b52320e59dd8c4e67a637c4561ca23bbad34689075f0eeb64'')
     (replay ?tr (db (plugin_with None)))
     = Some [(''session'', BBin [1, 2, 3]), (''date'', BInt 1700000000), (''pts'', BInt 7),
             (''qts'', BInt 0), (''seq'', BInt 3)]"
    by (simp add: demo_simps)
  from on_stop_snapshot_before_marker [OF run j marker] run stored show ?thesis
    by auto
qed

section \<open>The status message cannot be sent\<close>

text \<open>
  Claim C9, as the code has it. The session file exists, the position query answered
  and the log channel is configured. When \<^verbatim>\<open>send_message\<close> raises, \<^verbatim>\<open>on_stop\<close> ends
  with that exception (nothing in it catches one) right after the send; when
  \<^verbatim>\<open>send_message\<close> returns no message, \<^verbatim>\<open>on_stop\<close> returns normally. In both cases the
  collection it leaves is the one the snapshot upsert produced: the marker document is
  as it was before the run, and the snapshot of this shutdown is in place.
\<close>

theorem on_stop_send_fails:
  assumes has_file: "session_file e = Some bytes"
    and state: "get_state e = Inr data"
    and channel: "LOG_CHANNEL e = Some ch" "ch \<noteq> []" "py_int e ch = Some chat"
  shows "(\<forall>x. send_message e chat ''Shutdowning system...'' None = Inl x \<longrightarrow>
            on_stop e s =
              (Raised x, s\<lparr>db := update_one (session_id e) (snapshot_doc bytes data) (db s)\<rparr>,
               [FileExists, InvokeGetState, ReadBytes,
                UpdateOne (session_id e) (snapshot_doc bytes data),
                SendMessage chat ''Shutdowning system...'' None])) \<and>
         (send_message e chat ''Shutdowning system...'' None = Inr None \<longrightarrow>
            on_stop e s =
              (Returned, s\<lparr>db := update_one (session_id e) (snapshot_doc bytes data) (db s)\<rparr>,
               [FileExists, InvokeGetState, ReadBytes,
                UpdateOne (session_id e) (snapshot_doc bytes data),
                SendMessage chat ''Shutdowning system...'' None,
                LogInfo ''Preparing to shutdown...''])) \<and>
         update_one (session_id e) (snapshot_doc bytes data) (db s) marker_id = db s marker_id \<and>
         (\<exists>doc. find_one (session_id e) (update_one (session_id e) (snapshot_doc bytes data) (db s))
                  = Some doc \<and>
                dict_get doc ''session'' = Some (BBin bytes) \<and>
                dict_get doc ''date'' = Some (BInt (date data)) \<and>
                dict_get doc ''pts'' = Some (BInt (pts data)) \<and>
                dict_get doc ''qts'' = Some (BInt (qts data)) \<and>
                dict_get doc ''seq'' = Some (BInt (seq data)))"
proof -
  have sent: "send_to_log e ''Shutdowning system...'' None
      = (send_message e chat ''Shutdowning system...'' None,
         [SendMessage chat ''Shutdowning system...'' None])"
    using channel by (simp add: send_to_log_def)
  note branch = on_stop_file [OF has_file state, of s]
  have a: "\<forall>x. send_message e chat ''Shutdowning system...'' None = Inl x \<longrightarrow>
            on_stop e s =
              (Raised x, s\<lparr>db := update_one (session_id e) (snapshot_doc bytes data) (db s)\<rparr>,
               [FileExists, InvokeGetState, ReadBytes,
                UpdateOne (session_id e) (snapshot_doc bytes data),
                SendMessage chat ''Shutdowning system...'' None])"
    using branch sent by (simp add: Let_def)
  have b: "send_message e chat ''Shutdowning system...'' None = Inr None \<longrightarrow>
            on_stop e s =
              (Returned, s\<lparr>db := update_one (session_id e) (snapshot_doc bytes data) (db s)\<rparr>,
               [FileExists, InvokeGetState, ReadBytes,
                UpdateOne (session_id e) (snapshot_doc bytes data),
                SendMessage chat ''Shutdowning system...'' None,
                LogInfo ''Preparing to shutdown...''])"
    using branch sent by (simp add: Let_def)
  have c: "update_one (session_id e) (snapshot_doc bytes data) (db s) marker_id = db s marker_id"
    using ids_differ [of e] by (simp add: update_one_def)
  have d: "\<exists>doc. find_one (session_id e) (update_one (session_id e) (snapshot_doc bytes data) (db s))
                  = Some doc \<and>
                dict_get doc ''session'' = Some (BBin bytes) \<and>
                dict_get doc ''date'' = Some (BInt (date data)) \<and>
                dict_get doc ''pts'' = Some (BInt (pts data)) \<and>
                dict_get doc ''qts'' = Some (BInt (qts data)) \<and>
                dict_get doc ''seq'' = Some (BInt (seq data))"
    using snapshot_fields by (simp add: find_one_def update_one_def)
  from a b c d show ?thesis by blast
qed

theorem on_stop_send_fails_witness:
  "session_file failing_env = Some [1, 2, 3] \<and>
   LOG_CHANNEL failing_env = Some ''-1001234'' \<and>
   send_message failing_env (- 1001234) ''Shutdowning system...'' None
     = Inl (TransportError ''FLOOD_WAIT'') \<and>
   on_stop failing_env (plugin_with None)
     = (Raised (TransportError ''FLOOD_WAIT''),
        plugin_with None
          \<lparr>db := update_one (session_id failing_env)
                   (snapshot_doc [1, 2, 3] \<lparr>date = 1700000000, pts = 7, qts = 0, seq = 3\<rparr>)
                   (db (plugin_with None))\<rparr>,
        [FileExists, InvokeGetState, ReadBytes,
         UpdateOne (session_id failing_env)
           (snapshot_doc [1, 2, 3] \<lparr>date = 1700000000, pts = 7, qts = 0, seq = 3\<rparr>),
         SendMessage (- 1001234) ''Shutdowning system...'' None]) \<and>
   send_message unanswered_env (- 1001234) ''Shutdowning system...'' None = Inr None \<and>
   on_stop unanswered_env (plugin_with None)
     = (Returned,
        plugin_with None
          \<lparr>db := update_one (session_id unanswered_env)
                   (snapshot_doc [1, 2, 3] \<lparr>date = 1700000000, pts = 7, qts = 0, seq = 3\<rparr>)
                   (db (plugin_with None))\<rparr>,
        [FileExists, InvokeGetState, ReadBytes,
         UpdateOne (session_id unanswered_env)
           (snapshot_doc [1, 2, 3] \<lparr>date = 1700000000, pts = 7, qts = 0, seq = 3\<rparr>),
         SendMessage (- 1001234) ''Shutdowning system...'' None,
         LogInfo ''Preparing to shutdown...''])"
proof -
  have f: "session_file failing_env = Some [1, 2, 3]"
      "get_state failing_env = Inr \<lparr>date = 1700000000, pts = 7, qts = 0, seq = 3\<rparr>"
      "LOG_CHANNEL failing_env = Some ''-1001234''" "''-1001234'' \<noteq> []"
      "py_int failing_env ''-1001234'' = Some (- 1001234)"
    by (simp_all add: failing_env_def demo_env_def demo_int_def)
  have u: "session_file unanswered_env = Some [1, 2, 3]"
      "get_state unanswered_env = Inr \<lparr>date = 1700000000, pts = 7, qts = 0, seq = 3\<rparr>"
      "LOG_CHANNEL unanswered_env = Some ''-1001234''" "''-1001234'' \<noteq> []"
      "py_int unanswered_env ''-1001234'' = Some (- 1001234)"
    by (simp_all add: unanswered_env_def demo_env_def demo_int_def)
  have raised: "send_message failing_env (- 1001234) ''Shutdowning system...'' None
     = Inl (TransportError ''FLOOD_WAIT'')"
    by (simp add: failing_env_def demo_env_def)
  have unanswered: "send_message unanswered_env (- 1001234) ''Shutdowning system...'' None = Inr None"
    by (simp add: unanswered_env_def demo_env_def)
  from on_stop_send_fails [OF f, of "plugin_with None", THEN conjunct1, THEN spec, THEN mp, OF raised]
  have r1: "on_stop failing_env (plugin_with None)
     = (Raised (TransportError ''FLOOD_WAIT''),
        plugin_with None
          \<lparr>db := update_one (session_id failing_env)
                   (snapshot_doc [1, 2, 3] \<lparr>date = 1700000000, pts = 7, qts = 0, seq = 3\<rparr>)
                   (db (plugin_with None))\<rparr>,
        [FileExists, InvokeGetState, ReadBytes,
         UpdateOne (session_id failing_env)
           (snapshot_doc [1, 2, 3] \<lparr>date = 1700000000, pts = 7, qts = 0, seq = 3\<rparr>),
         SendMessage (- 1001234) ''Shutdowning system...'' None])"
    by simp
  from on_stop_send_fails [OF u, of "plugin_with None", THEN conjunct2, THEN conjunct1, THEN mp, OF unanswered]
  have r2: "on_stop unanswered_env (plugin_with None)
     = (Returned,
        plugin_with None
          \<lparr>db := update_one (session_id unanswered_env)
                   (snapshot_doc [1, 2, 3] \<lparr>date = 1700000000, pts = 7, qts = 0, seq = 3\<rparr>)
                   (db (plugin_with None))\<rparr>,
        [FileExists, InvokeGetState, ReadBytes,
         UpdateOne (session_id unanswered_env)
           (snapshot_doc [1, 2, 3] \<lparr>date = 1700000000, pts = 7, qts = 0, seq = 3\<rparr>),
         SendMessage (- 1001234) ''Shutdowning system...'' None,
         LogInfo ''Preparing to shutdown...''])"
    by simp
  from f raised unanswered r1 r2 show ?thesis
    by simp
qed

text \<open>
  The claim as the specification words it fails: with a configured log channel and a
  client whose send raises, \<^verbatim>\<open>on_stop\<close> ends with the exception of the send.
\<close>

theorem on_stop_send_fails_counterexample:
  "LOG_CHANNEL failing_env = Some ''-1001234'' \<and>
   send_message failing_env (- 1001234) ''Shutdowning system...'' None
     = Inl (TransportError ''FLOOD_WAIT'') \<and>
   fst (on_stop failing_env (plugin_with None)) = Raised (TransportError ''FLOOD_WAIT'')"
  by (simp add: on_stop_def send_to_log_def failing_env_def demo_env_def demo_int_def Let_def)

section \<open>Two documents, two identifiers\<close>

text \<open>
  Claim C10. Whatever the token and the digest function, the snapshot's identifier is
  a string and the marker's is the integer 5, so they differ. An upsert under the
  snapshot's identifier leaves the marker document as it is; an upsert or a delete
  under the marker's identifier leaves the snapshot document as it is. For the plugin:
  \<^verbatim>\<open>on_start\<close> never changes the snapshot document; after \<^verbatim>\<open>on_stop\<close> the marker
  document is the old one or the old one with the marker fields set, and the snapshot
  document is the old one or the old one with the snapshot fields set.
\<close>

theorem marker_and_snapshot_ids_distinct:
  "marker_id \<noteq> session_id e \<and>
   update_one (session_id e) flds c marker_id = c marker_id \<and>
   update_one marker_id flds c (session_id e) = c (session_id e) \<and>
   delete_one marker_id c (session_id e) = c (session_id e) \<and>
   db (fst (snd (on_start e' s))) (session_id e) = db s (session_id e) \<and>
   (db (fst (snd (on_stop e s))) marker_id = db s marker_id \<or>
    (\<exists>m. db (fst (snd (on_stop e s))) marker_id
            = Some (set_fields (marker_doc m (usec e))
                      (case db s marker_id of None \<Rightarrow> [] | Some d \<Rightarrow> d)))) \<and>
   (db (fst (snd (on_stop e s))) (session_id e) = db s (session_id e) \<or>
    (\<exists>bytes data. db (fst (snd (on_stop e s))) (session_id e)
            = Some (set_fields (snapshot_doc bytes data)
                      (case db s (session_id e) of None \<Rightarrow> [] | Some d \<Rightarrow> d))))"
proof -
  have ne: "marker_id \<noteq> session_id e"
    using ids_differ [of e] by simp
  have a: "update_one (session_id e) flds c marker_id = c marker_id"
    using ne by (simp add: update_one_def)
  have b: "update_one marker_id flds c (session_id e) = c (session_id e)"
    using ne by (simp add: update_one_def)
  have c: "delete_one marker_id c (session_id e) = c (session_id e)"
    using ne by (simp add: delete_one_def)
  have d: "db (fst (snd (on_start e' s))) (session_id e) = db s (session_id e)"
    using ids_differ [of e] by (rule on_start_keeps_others)
  have stop: "db (fst (snd (on_stop e s))) = db s \<or>
      (\<exists>bytes data. db (fst (snd (on_stop e s)))
          = update_one (session_id e) (snapshot_doc bytes data) (db s)) \<or>
      (\<exists>bytes data m. db (fst (snd (on_stop e s)))
          = update_one marker_id (marker_doc m (usec e))
              (update_one (session_id e) (snapshot_doc bytes data) (db s)))"
    by (simp add: on_stop_def Let_def split: option.splits sum.splits prod.splits) blast
  from stop consider (same) "db (fst (snd (on_stop e s))) = db s"
    | (snap) bytes data where "db (fst (snd (on_stop e s)))
          = update_one (session_id e) (snapshot_doc bytes data) (db s)"
    | (both) bytes data m where "db (fst (snd (on_stop e s)))
          = update_one marker_id (marker_doc m (usec e))
              (update_one (session_id e) (snapshot_doc bytes data) (db s))"
    by blast
  then have fg: "(db (fst (snd (on_stop e s))) marker_id = db s marker_id \<or>
    (\<exists>m. db (fst (snd (on_stop e s))) marker_id
            = Some (set_fields (marker_doc m (usec e))
                      (case db s marker_id of None \<Rightarrow> [] | Some d \<Rightarrow> d)))) \<and>
   (db (fst (snd (on_stop e s))) (session_id e) = db s (session_id e) \<or>
    (\<exists>bytes data. db (fst (snd (on_stop e s))) (session_id e)
            = Some (set_fields (snapshot_doc bytes data)
                      (case db s (session_id e) of None \<Rightarrow> [] | Some d \<Rightarrow> d))))"
  proof cases
    case same
    then show ?thesis by simp
  next
    case snap
    then have "db (fst (snd (on_stop e s))) marker_id = db s marker_id"
      and "db (fst (snd (on_stop e s))) (session_id e)
            = Some (set_fields (snapshot_doc bytes data)
                      (case db s (session_id e) of None \<Rightarrow> [] | Some d \<Rightarrow> d))"
      using ne by (simp_all add: update_one_def)
    then show ?thesis by blast
  next
    case both
    then have "db (fst (snd (on_stop e s))) marker_id
            = Some (set_fields (marker_doc m (usec e))
                      (case db s marker_id of None \<Rightarrow> [] | Some d \<Rightarrow> d))"
      and "db (fst (snd (on_stop e s))) (session_id e)
            = Some (set_fields (snapshot_doc bytes data)
                      (case db s (session_id e) of None \<Rightarrow> [] | Some d \<Rightarrow> d))"
      using ne by (simp_all add: update_one_def)
    then show ?thesis by blast
  qed
  from ne a b c d fg show ?thesis by blast
qed

end
